theory Spec2Isabelle
  imports Main "HOL-Library.State_Monad"
begin

section \<open>The Navier-Stokes demonstration notebook\<close>

text \<open>
  The repository's source is the notebook \<^verbatim>\<open>PARCtorch/demos/NavierStokes.ipynb\<close>: a
  script whose code cells, run from top to bottom, build paths and literals and hand
  them to functions and classes imported from \<^verbatim>\<open>PARCtorch\<close> and \<^verbatim>\<open>torch\<close>. None of the
  imported callables is defined in the notebook. What the notebook itself decides is
  which callable is invoked, in which order, with which positional and keyword
  arguments, and where each argument comes from. The model below records exactly
  that: every external call appends an event to a trace and returns an opaque handle
  to the value the callee produced.
\<close>

subsection \<open>Python values\<close>

datatype val =
    PyNone
  | PyBool bool
  | PyInt int
  | PyFloat int int
  | PyStr string
  | PyPath "string list"
  | PyList "val list"
  | PyTuple "val list"
  | SliceAll
  | Callable string
  | Ext nat

text \<open>
  \<open>PyFloat m e\<close> is the decimal literal \<open>m * 10 ^ e\<close> (\<^verbatim>\<open>1e-5\<close> is \<open>PyFloat 1 (-5)\<close>),
  \<open>PyPath\<close> holds the parts of a \<^verbatim>\<open>pathlib.Path\<close>, \<open>SliceAll\<close> is the subscript \<^verbatim>\<open>:\<close>,
  \<open>Callable f\<close> is an imported function passed as a value (\<^verbatim>\<open>collate_fn=custom_collate_fn\<close>)
  and \<open>Ext n\<close> is the value returned by the \<open>n\<close>-th external call of the run (calls are
  counted from 0). A handle whose number is not that of a call of the run stands for
  an object the world made, such as a tensor inside a batch.
\<close>

datatype callee =
    Func string
  | Method val string
  | Attr val string
  | Apply val
  | Subscript val

text \<open>
  \<open>Func f\<close> is a call \<^verbatim>\<open>f(...)\<close> of an imported name, \<open>Method r m\<close> a call \<^verbatim>\<open>r.m(...)\<close>,
  \<open>Attr r a\<close> the attribute read \<^verbatim>\<open>r.a\<close>, \<open>Apply r\<close> the call \<^verbatim>\<open>r(...)\<close> of an object and
  \<open>Subscript r\<close> the read \<^verbatim>\<open>r[...]\<close>.
\<close>

record event =
  callee :: callee
  args :: "val list"
  kwargs :: "(string \<times> val) list"

datatype error = TypeError | ValueError

record kernel =
  trace :: "event list"
  raised :: "error option"

text \<open>
  What the notebook cannot know about an external value is supplied by the world it
  runs in: whether the value is true in a condition, what iterating over it yields
  (\<open>None\<close> when it is not iterable), and which integer it converts to (\<open>None\<close> when it
  does not).
\<close>

record world =
  ext_truth :: "nat \<Rightarrow> bool"
  ext_items :: "nat \<Rightarrow> val list option"
  ext_index :: "nat \<Rightarrow> int option"

subsection \<open>Primitive operations\<close>

definition call :: "callee \<Rightarrow> val list \<Rightarrow> (string \<times> val) list \<Rightarrow> (kernel, val) state" where
  "call f as kw =
     State (\<lambda>k. (Ext (length (trace k)),
                 k\<lparr>trace := trace k @ [\<lparr>callee = f, args = as, kwargs = kw\<rparr>]\<rparr>))"

definition raise :: "error \<Rightarrow> (kernel, unit) state" where
  "raise e = State (\<lambda>k. ((), k\<lparr>raised := Some e\<rparr>))"

definition proceed :: "(kernel, unit) state \<Rightarrow> (kernel, unit) state" where
  "proceed m = State (\<lambda>k. if raised k = None then run_state m k else ((), k))"

fun truth :: "world \<Rightarrow> val \<Rightarrow> bool" where
  "truth w PyNone = False"
| "truth w (PyBool b) = b"
| "truth w (PyInt i) = (i \<noteq> 0)"
| "truth w (PyFloat m e) = (m \<noteq> 0)"
| "truth w (PyStr s) = (s \<noteq> [])"
| "truth w (PyPath p) = True"
| "truth w (PyList xs) = (xs \<noteq> [])"
| "truth w (PyTuple xs) = (xs \<noteq> [])"
| "truth w SliceAll = True"
| "truth w (Callable f) = True"
| "truth w (Ext n) = ext_truth w n"

fun py_iter :: "world \<Rightarrow> val \<Rightarrow> error + val list" where
  "py_iter w (PyList xs) = Inr xs"
| "py_iter w (PyTuple xs) = Inr xs"
| "py_iter w (PyStr s) = Inr (map (\<lambda>c. PyStr [c]) s)"
| "py_iter w (Ext n) = (case ext_items w n of None \<Rightarrow> Inl TypeError | Some xs \<Rightarrow> Inr xs)"
| "py_iter w v = Inl TypeError"

text \<open>
  \<^verbatim>\<open>a, b, c, d = v\<close>: the right-hand side is iterated, and anything but four items
  raises \<^verbatim>\<open>ValueError\<close>.
\<close>

definition unpack4 :: "world \<Rightarrow> val \<Rightarrow> error + (val \<times> val \<times> val \<times> val)" where
  "unpack4 w v =
     (case py_iter w v of
        Inl e \<Rightarrow> Inl e
      | Inr xs \<Rightarrow>
          (case xs of
             [a, b, c, d] \<Rightarrow> Inr (a, b, c, d)
           | _ \<Rightarrow> Inl ValueError))"

fun py_range :: "world \<Rightarrow> val \<Rightarrow> error + int list" where
  "py_range w (PyInt n) = Inr (map int [0..<nat n])"
| "py_range w (PyBool b) = Inr (map int [0..<(if b then 1 else 0)])"
| "py_range w (Ext k) =
     (case ext_index w k of None \<Rightarrow> Inl TypeError | Some n \<Rightarrow> Inr (map int [0..<nat n]))"
| "py_range w v = Inl TypeError"

subsection \<open>Paths and string formatting\<close>

type_synonym path = "string list"

fun split_on :: "char \<Rightarrow> string \<Rightarrow> string list" where
  "split_on c [] = [[]]"
| "split_on c (x # xs) =
     (if x = c then [] # split_on c xs
      else (case split_on c xs of [] \<Rightarrow> [[x]] | p # ps \<Rightarrow> (x # p) # ps))"

definition Path :: "string \<Rightarrow> path" where
  "Path s =
     (if s \<noteq> [] \<and> hd s = CHR ''/'' then [''/''] else []) @
     filter (\<lambda>p. p \<noteq> [] \<and> p \<noteq> ''.'') (split_on (CHR ''/'') s)"

definition parent :: "path \<Rightarrow> path" where
  "parent p = (if p = [''/''] then p else butlast p)"

definition joinpath :: "path \<Rightarrow> string \<Rightarrow> path" where
  "joinpath p s = (if s \<noteq> [] \<and> hd s = CHR ''/'' then Path s else p @ Path s)"

function str_nat :: "nat \<Rightarrow> string" where
  "str_nat n =
     (if n < 10 then [''0123456789'' ! n]
      else str_nat (n div 10) @ [''0123456789'' ! (n mod 10)])"
  by pat_completeness auto
termination
  by (relation "measure id") auto

definition str_int :: "int \<Rightarrow> string" where
  "str_int i = (if i < 0 then CHR ''-'' # str_nat (nat (- i)) else str_nat (nat i))"

subsection \<open>The code cells\<close>

text \<open>Cell "Compute Data Normalization" (source lines 80-88).\<close>

definition cell_normalization :: "(kernel, path \<times> path \<times> path) state" where
  "cell_normalization = do {
     let train_dir = Path ''../data/navier_stokes/train'';
     let test_dir = Path ''../data/navier_stokes/test'';
     let min_max_file = joinpath (parent train_dir) ''ns_min_max.json'';
     _ \<leftarrow> call (Func ''compute_min_max'')
            [PyList [PyPath train_dir, PyPath test_dir], PyPath min_max_file] [];
     State_Monad.return (train_dir, test_dir, min_max_file)
   }"

text \<open>Cell "Data Loader for Training" (source lines 114-147).\<close>

definition cell_train_loader :: "path \<Rightarrow> path \<Rightarrow> (kernel, val \<times> val) state" where
  "cell_train_loader train_dir min_max_file = do {
     let future_steps = PyInt 1;
     let batch_size = PyInt 8;
     train_dataset \<leftarrow> call (Func ''GenericPhysicsDataset'') []
            [(''data_dirs'', PyList [PyPath train_dir]),
             (''future_steps'', future_steps),
             (''min_max_path'', PyPath min_max_file)];
     train_loader \<leftarrow> call (Func ''DataLoader'') [train_dataset]
            [(''batch_size'', batch_size),
             (''shuffle'', PyBool False),
             (''num_workers'', PyInt 1),
             (''pin_memory'', PyBool True),
             (''collate_fn'', Callable ''custom_collate_fn'')];
     State_Monad.return (batch_size, train_loader)
   }"

text \<open>
  Cell "Visualize the Data" (source lines 173-192). The loop body ends in \<^verbatim>\<open>break\<close>, so
  only the first batch, if there is one, is processed.
\<close>

definition cell_visualize_data :: "world \<Rightarrow> val \<Rightarrow> (kernel, unit) state" where
  "cell_visualize_data w train_loader =
     (case py_iter w train_loader of
        Inl e \<Rightarrow> raise e
      | Inr [] \<Rightarrow> State_Monad.return ()
      | Inr (batch # _) \<Rightarrow>
          (case unpack4 w batch of
             Inl e \<Rightarrow> raise e
           | Inr (ic, t0, t1, target) \<Rightarrow> do {
               let channel_names =
                 PyList [PyStr ''Pressure (P)'', PyStr ''Reynolds (R)'',
                         PyStr ''Velocity U'', PyStr ''Velocity V''];
               let custom_cmaps =
                 PyList [PyStr ''seismic'', PyStr ''seismic'', PyStr ''seismic'', PyStr ''seismic''];
               _ \<leftarrow> call (Func ''visualize_channels'') [ic, t0, t1, target]
                      [(''channel_names'', channel_names), (''channel_cmaps'', custom_cmaps)];
               State_Monad.return ()
             }))"

text \<open>Cells "Build Your PARC Model" (source lines 224-306).\<close>

definition cell_build_model :: "(kernel, val \<times> val \<times> val) state" where
  "cell_build_model = do {
     _ \<leftarrow> call (Func ''sys.path.append'') [PyStr ''../../''] [];
     let n_fe_features = PyInt 128;
     unet_ns \<leftarrow> call (Func ''UNet'')
            [PyList [PyInt 64, PyInt (64 * 2), PyInt (64 * 4), PyInt (64 * 8), PyInt (64 * 16)],
             PyInt 4,
             n_fe_features]
            [(''up_block_use_concat'', PyList [PyBool False, PyBool True, PyBool False, PyBool True]),
             (''skip_connection_indices'', PyList [PyInt 2, PyInt 0])];
     fd \<leftarrow> call (Func ''FiniteDifference'') [] [(''padding_mode'', PyStr ''replicate'')];
     right_diff \<leftarrow> call (Method fd ''cuda'') [] [];
     heun \<leftarrow> call (Func ''Heun'') [] [];
     heun_int \<leftarrow> call (Method heun ''cuda'') [] [];
     adr \<leftarrow> call (Func ''ADRDifferentiator'')
            [PyInt 2,
             n_fe_features,
             PyList [PyInt 2, PyInt 3],
             PyList [PyInt 2, PyInt 3],
             unet_ns,
             PyStr ''constant'',
             right_diff,
             PyBool False] [];
     diff_ns \<leftarrow> call (Method adr ''cuda'') [] [];
     integ \<leftarrow> call (Func ''Integrator'')
            [PyBool True,
             PyList [PyTuple [PyInt 0, PyInt 2, PyInt 3, PyInt 1]],
             heun_int,
             PyList [PyNone, PyNone, PyNone, PyNone],
             PyStr ''constant'',
             right_diff] [];
     ns_int \<leftarrow> call (Method integ ''cuda'') [] [];
     l1 \<leftarrow> call (Func ''torch.nn.L1Loss'') [] [];
     criterion \<leftarrow> call (Method l1 ''cuda'') [] [];
     parc \<leftarrow> call (Func ''PARCv2'') [diff_ns, ns_int, criterion] [];
     model \<leftarrow> call (Method parc ''cuda'') [] [];
     params \<leftarrow> call (Method model ''parameters'') [] [];
     optimizer \<leftarrow> call (Func ''Adam'') [params] [(''lr'', PyFloat 1 (- 5))];
     State_Monad.return (criterion, model, optimizer)
   }"

text \<open>Cell "Train the Model" (source lines 332-343).\<close>

definition cell_train :: "path \<Rightarrow> val \<Rightarrow> val \<Rightarrow> val \<Rightarrow> val \<Rightarrow> (kernel, val) state" where
  "cell_train train_dir model train_loader criterion optimizer =
     call (Func ''train_model'') [model, train_loader, criterion, optimizer]
       [(''num_epochs'', PyInt 1),
        (''save_dir'', PyPath (parent train_dir)),
        (''app'', PyStr ''ns'')]"

text \<open>Cell "Load the Model" (source lines 362-369).\<close>

definition cell_load :: "world \<Rightarrow> path \<Rightarrow> val \<Rightarrow> (kernel, val) state" where
  "cell_load w train_dir model = do {
     available \<leftarrow> call (Func ''torch.cuda.is_available'') [] [];
     device \<leftarrow> call (Func ''torch.device'')
            [PyStr (if truth w available then ''cuda'' else ''cpu'')] [];
     let model_weights_path = joinpath (parent train_dir) ''model.pth'';
     call (Func ''load_model_weights'') [model, PyPath model_weights_path, device] []
   }"

text \<open>Cell "Sequence DataLoader" (source lines 388-404).\<close>

definition cell_seq_loader :: "path \<Rightarrow> path \<Rightarrow> val \<Rightarrow> (kernel, val \<times> val) state" where
  "cell_seq_loader test_dir min_max_file batch_size = do {
     let future_steps = PyInt 10;
     seq_dataset \<leftarrow> call (Func ''InitialConditionDataset'') []
            [(''data_dirs'', PyList [PyPath test_dir]),
             (''future_steps'', future_steps),
             (''min_max_path'', PyPath min_max_file)];
     seq_loader \<leftarrow> call (Func ''DataLoader'') [seq_dataset]
            [(''batch_size'', batch_size),
             (''shuffle'', PyBool False),
             (''num_workers'', PyInt 1),
             (''pin_memory'', PyBool True),
             (''collate_fn'', Callable ''initial_condition_collate_fn'')];
     State_Monad.return (future_steps, seq_loader)
   }"

text \<open>Cell "Ground Truth Loader" (source lines 423-438).\<close>

definition cell_gt_loader :: "path \<Rightarrow> val \<Rightarrow> path \<Rightarrow> val \<Rightarrow> (kernel, val) state" where
  "cell_gt_loader test_dir future_steps min_max_file batch_size = do {
     gt_dataset \<leftarrow> call (Func ''GenericPhysicsDataset'') []
            [(''data_dirs'', PyList [PyPath test_dir]),
             (''future_steps'', future_steps),
             (''min_max_path'', PyPath min_max_file)];
     call (Func ''DataLoader'') [gt_dataset]
            [(''batch_size'', batch_size),
             (''shuffle'', PyBool False),
             (''num_workers'', PyInt 1),
             (''pin_memory'', PyBool True),
             (''collate_fn'', Callable ''custom_collate_fn'')]
   }"

text \<open>
  Cell "Visualize the Results" (source lines 457-513). \<^verbatim>\<open>zip\<close> asks both loaders for an
  iterator before the first pair is drawn; both loops end in \<^verbatim>\<open>break\<close>.
\<close>

definition save_first_gif :: "world \<Rightarrow> val \<Rightarrow> val \<Rightarrow> val \<Rightarrow> val \<Rightarrow> val \<Rightarrow> (kernel, unit) state" where
  "save_first_gif w n_samples predictions ground_truth channels cmaps =
     (case py_range w n_samples of
        Inl e \<Rightarrow> raise e
      | Inr [] \<Rightarrow> State_Monad.return ()
      | Inr (batch_idx # _) \<Rightarrow> do {
          _ \<leftarrow> call (Func ''save_gifs_with_ground_truth'') []
                 [(''predictions'', predictions),
                  (''ground_truth'', ground_truth),
                  (''channels'', channels),
                  (''cmaps'', cmaps),
                  (''filename_prefix'', PyStr (''comparison_batch'' @ str_int batch_idx)),
                  (''interval'', PyFloat 2 (- 1)),
                  (''batch_idx'', PyInt batch_idx)];
          State_Monad.return ()
        })"

definition predict_first :: "world \<Rightarrow> val \<Rightarrow> val \<Rightarrow> val \<Rightarrow> val \<Rightarrow> val \<Rightarrow> (kernel, unit) state" where
  "predict_first w model channels cmaps seq_batch test_batch =
     (case unpack4 w seq_batch of
        Inl e \<Rightarrow> raise e
      | Inr (ic, t0, t1, unused) \<Rightarrow>
          (case unpack4 w test_batch of
             Inl e \<Rightarrow> raise e
           | Inr (gt_ic, gt_t0, gt_t1, ground_truth) \<Rightarrow> do {
               available \<leftarrow> call (Func ''torch.cuda.is_available'') [] [];
               device \<leftarrow> call (Func ''torch.device'')
                      [PyStr (if truth w available then ''cuda'' else ''cpu'')] [];
               ic \<leftarrow> call (Method ic ''to'') [device] [];
               t0 \<leftarrow> call (Method t0 ''to'') [device] [];
               t1 \<leftarrow> call (Method t1 ''to'') [device] [];
               ground_truth \<leftarrow> call (Method ground_truth ''to'') [device] [];
               _ \<leftarrow> call (Func ''torch.no_grad'') [] [];
               predictions \<leftarrow> call (Apply model) [ic, t0, t1] [];
               shape \<leftarrow> call (Attr predictions ''shape'') [] [];
               _ \<leftarrow> call (Func ''print'') [PyStr ''Predictions shape:'', shape] [];
               sample0 \<leftarrow> call (Subscript predictions)
                      [SliceAll, PyInt 0, SliceAll, SliceAll, SliceAll] [];
               sample0_shape \<leftarrow> call (Attr sample0 ''shape'') [] [];
               _ \<leftarrow> call (Func ''print'')
                      [PyStr ''Sample prediction for timestep 1:'', sample0_shape] [];
               n_samples \<leftarrow> call (Method ic ''size'') [PyInt 0] [];
               save_first_gif w n_samples predictions ground_truth channels cmaps
             }))"

definition cell_results :: "world \<Rightarrow> val \<Rightarrow> val \<Rightarrow> val \<Rightarrow> (kernel, unit) state" where
  "cell_results w model seq_loader gt_loader = do {
     _ \<leftarrow> call (Method model ''eval'') [] [];
     let channels = PyList [PyStr ''pressure'', PyStr ''Reynolds'', PyStr ''u'', PyStr ''v''];
     let cmaps = PyList [PyStr ''viridis'', PyStr ''plasma'', PyStr ''inferno'', PyStr ''magma''];
     (case py_iter w seq_loader of
        Inl e \<Rightarrow> raise e
      | Inr seq_batches \<Rightarrow>
          (case py_iter w gt_loader of
             Inl e \<Rightarrow> raise e
           | Inr gt_batches \<Rightarrow>
               (case zip seq_batches gt_batches of
                  [] \<Rightarrow> State_Monad.return ()
                | (seq_batch, test_batch) # _ \<Rightarrow>
                    predict_first w model channels cmaps seq_batch test_batch)))
   }"

subsection \<open>Running every cell in order\<close>

text \<open>
  The cells run from top to bottom; a cell that raises stops the run, so the cells
  after it contribute no call.
\<close>

definition after_visualize :: "world \<Rightarrow> path \<Rightarrow> path \<Rightarrow> path \<Rightarrow> val \<Rightarrow> val \<Rightarrow> (kernel, unit) state" where
  "after_visualize w train_dir test_dir min_max_file batch_size train_loader = do {
     (criterion, model, optimizer) \<leftarrow> cell_build_model;
     _ \<leftarrow> cell_train train_dir model train_loader criterion optimizer;
     model \<leftarrow> cell_load w train_dir model;
     (future_steps, seq_loader) \<leftarrow> cell_seq_loader test_dir min_max_file batch_size;
     gt_loader \<leftarrow> cell_gt_loader test_dir future_steps min_max_file batch_size;
     cell_results w model seq_loader gt_loader
   }"

definition notebook :: "world \<Rightarrow> (kernel, unit) state" where
  "notebook w = do {
     (train_dir, test_dir, min_max_file) \<leftarrow> cell_normalization;
     (batch_size, train_loader) \<leftarrow> cell_train_loader train_dir min_max_file;
     _ \<leftarrow> cell_visualize_data w train_loader;
     proceed (after_visualize w train_dir test_dir min_max_file batch_size train_loader)
   }"

definition fresh :: kernel where
  "fresh = \<lparr>trace = [], raised = None\<rparr>"

definition run :: "world \<Rightarrow> kernel" where
  "run w = snd (run_state (notebook w) fresh)"

subsection \<open>The calls of a run, in closed form\<close>

text \<open>
  The lists below spell out which events each group of cells logs when the first of
  them is the \<open>n\<close>-th call of the run. They are not part of the program: the lemmas of
  the next section prove that running the cells logs exactly these events, and the
  claims are then checked on the lists.
\<close>

definition data_root :: path where
  "data_root = [''..'', ''data'', ''navier_stokes'']"

definition loader_options :: "string \<Rightarrow> (string \<times> val) list" where
  "loader_options collate =
     [(''batch_size'', PyInt 8),
      (''shuffle'', PyBool False),
      (''num_workers'', PyInt 1),
      (''pin_memory'', PyBool True),
      (''collate_fn'', Callable collate)]"

definition dataset_options :: "string \<Rightarrow> int \<Rightarrow> (string \<times> val) list" where
  "dataset_options split horizon =
     [(''data_dirs'', PyList [PyPath (data_root @ [split])]),
      (''future_steps'', PyInt horizon),
      (''min_max_path'', PyPath (data_root @ [''ns_min_max.json'']))]"

definition setup_events :: "event list" where
  "setup_events =
     [\<lparr>callee = Func ''compute_min_max'',
       args = [PyList [PyPath (data_root @ [''train'']), PyPath (data_root @ [''test''])],
               PyPath (data_root @ [''ns_min_max.json''])],
       kwargs = []\<rparr>,
      \<lparr>callee = Func ''GenericPhysicsDataset'', args = [],
       kwargs = dataset_options ''train'' 1\<rparr>,
      \<lparr>callee = Func ''DataLoader'', args = [Ext 1],
       kwargs = loader_options ''custom_collate_fn''\<rparr>]"

definition visualize_event :: "val \<times> val \<times> val \<times> val \<Rightarrow> event" where
  "visualize_event q =
     (case q of (ic, t0, t1, target) \<Rightarrow>
        \<lparr>callee = Func ''visualize_channels'',
         args = [ic, t0, t1, target],
         kwargs =
           [(''channel_names'',
             PyList [PyStr ''Pressure (P)'', PyStr ''Reynolds (R)'',
                     PyStr ''Velocity U'', PyStr ''Velocity V'']),
            (''channel_cmaps'',
             PyList [PyStr ''seismic'', PyStr ''seismic'', PyStr ''seismic'', PyStr ''seismic''])]\<rparr>)"

definition build_events :: "nat \<Rightarrow> event list" where
  "build_events n =
     [\<lparr>callee = Func ''sys.path.append'', args = [PyStr ''../../''], kwargs = []\<rparr>,
      \<lparr>callee = Func ''UNet'',
       args = [PyList [PyInt 64, PyInt 128, PyInt 256, PyInt 512, PyInt 1024], PyInt 4, PyInt 128],
       kwargs =
         [(''up_block_use_concat'', PyList [PyBool False, PyBool True, PyBool False, PyBool True]),
          (''skip_connection_indices'', PyList [PyInt 2, PyInt 0])]\<rparr>,
      \<lparr>callee = Func ''FiniteDifference'', args = [],
       kwargs = [(''padding_mode'', PyStr ''replicate'')]\<rparr>,
      \<lparr>callee = Method (Ext (n + 2)) ''cuda'', args = [], kwargs = []\<rparr>,
      \<lparr>callee = Func ''Heun'', args = [], kwargs = []\<rparr>,
      \<lparr>callee = Method (Ext (n + 4)) ''cuda'', args = [], kwargs = []\<rparr>,
      \<lparr>callee = Func ''ADRDifferentiator'',
       args = [PyInt 2, PyInt 128, PyList [PyInt 2, PyInt 3], PyList [PyInt 2, PyInt 3],
               Ext (n + 1), PyStr ''constant'', Ext (n + 3), PyBool False],
       kwargs = []\<rparr>,
      \<lparr>callee = Method (Ext (n + 6)) ''cuda'', args = [], kwargs = []\<rparr>,
      \<lparr>callee = Func ''Integrator'',
       args = [PyBool True, PyList [PyTuple [PyInt 0, PyInt 2, PyInt 3, PyInt 1]], Ext (n + 5),
               PyList [PyNone, PyNone, PyNone, PyNone], PyStr ''constant'', Ext (n + 3)],
       kwargs = []\<rparr>,
      \<lparr>callee = Method (Ext (n + 8)) ''cuda'', args = [], kwargs = []\<rparr>,
      \<lparr>callee = Func ''torch.nn.L1Loss'', args = [], kwargs = []\<rparr>,
      \<lparr>callee = Method (Ext (n + 10)) ''cuda'', args = [], kwargs = []\<rparr>,
      \<lparr>callee = Func ''PARCv2'', args = [Ext (n + 7), Ext (n + 9), Ext (n + 11)], kwargs = []\<rparr>,
      \<lparr>callee = Method (Ext (n + 12)) ''cuda'', args = [], kwargs = []\<rparr>,
      \<lparr>callee = Method (Ext (n + 13)) ''parameters'', args = [], kwargs = []\<rparr>,
      \<lparr>callee = Func ''Adam'', args = [Ext (n + 14)], kwargs = [(''lr'', PyFloat 1 (- 5))]\<rparr>]"

definition device_name :: "world \<Rightarrow> nat \<Rightarrow> string" where
  "device_name w i = (if ext_truth w i then ''cuda'' else ''cpu'')"

definition train_event :: "nat \<Rightarrow> event" where
  "train_event n =
     \<lparr>callee = Func ''train_model'',
      args = [Ext (n + 13), Ext 2, Ext (n + 11), Ext (n + 15)],
      kwargs = [(''num_epochs'', PyInt 1), (''save_dir'', PyPath data_root), (''app'', PyStr ''ns'')]\<rparr>"

definition load_events :: "world \<Rightarrow> nat \<Rightarrow> event list" where
  "load_events w n =
     [\<lparr>callee = Func ''torch.cuda.is_available'', args = [], kwargs = []\<rparr>,
      \<lparr>callee = Func ''torch.device'', args = [PyStr (device_name w (n + 17))], kwargs = []\<rparr>,
      \<lparr>callee = Func ''load_model_weights'',
       args = [Ext (n + 13), PyPath (data_root @ [''model.pth'']), Ext (n + 18)],
       kwargs = []\<rparr>]"

definition seq_loader_events :: "nat \<Rightarrow> event list" where
  "seq_loader_events n =
     [\<lparr>callee = Func ''InitialConditionDataset'', args = [],
       kwargs = dataset_options ''test'' 10\<rparr>,
      \<lparr>callee = Func ''DataLoader'', args = [Ext (n + 20)],
       kwargs = loader_options ''initial_condition_collate_fn''\<rparr>]"

definition gt_loader_events :: "nat \<Rightarrow> event list" where
  "gt_loader_events n =
     [\<lparr>callee = Func ''GenericPhysicsDataset'', args = [],
       kwargs = dataset_options ''test'' 10\<rparr>,
      \<lparr>callee = Func ''DataLoader'', args = [Ext (n + 22)],
       kwargs = loader_options ''custom_collate_fn''\<rparr>]"

definition eval_event :: "nat \<Rightarrow> event" where
  "eval_event n = \<lparr>callee = Method (Ext (n + 19)) ''eval'', args = [], kwargs = []\<rparr>"

definition predict_events :: "world \<Rightarrow> nat \<Rightarrow> val \<times> val \<times> val \<times> val \<Rightarrow> val \<times> val \<times> val \<times> val \<Rightarrow> event list" where
  "predict_events w n sq gq =
     (case sq of (ic, t0, t1, unused) \<Rightarrow>
      case gq of (gt_ic, gt_t0, gt_t1, ground_truth) \<Rightarrow>
        [\<lparr>callee = Func ''torch.cuda.is_available'', args = [], kwargs = []\<rparr>,
         \<lparr>callee = Func ''torch.device'', args = [PyStr (device_name w (n + 25))], kwargs = []\<rparr>,
         \<lparr>callee = Method ic ''to'', args = [Ext (n + 26)], kwargs = []\<rparr>,
         \<lparr>callee = Method t0 ''to'', args = [Ext (n + 26)], kwargs = []\<rparr>,
         \<lparr>callee = Method t1 ''to'', args = [Ext (n + 26)], kwargs = []\<rparr>,
         \<lparr>callee = Method ground_truth ''to'', args = [Ext (n + 26)], kwargs = []\<rparr>,
         \<lparr>callee = Func ''torch.no_grad'', args = [], kwargs = []\<rparr>,
         \<lparr>callee = Apply (Ext (n + 19)),
          args = [Ext (n + 27), Ext (n + 28), Ext (n + 29)], kwargs = []\<rparr>,
         \<lparr>callee = Attr (Ext (n + 32)) ''shape'', args = [], kwargs = []\<rparr>,
         \<lparr>callee = Func ''print'', args = [PyStr ''Predictions shape:'', Ext (n + 33)], kwargs = []\<rparr>,
         \<lparr>callee = Subscript (Ext (n + 32)),
          args = [SliceAll, PyInt 0, SliceAll, SliceAll, SliceAll], kwargs = []\<rparr>,
         \<lparr>callee = Attr (Ext (n + 35)) ''shape'', args = [], kwargs = []\<rparr>,
         \<lparr>callee = Func ''print'',
          args = [PyStr ''Sample prediction for timestep 1:'', Ext (n + 36)], kwargs = []\<rparr>,
         \<lparr>callee = Method (Ext (n + 27)) ''size'', args = [PyInt 0], kwargs = []\<rparr>])"

definition save_event :: "nat \<Rightarrow> event" where
  "save_event n =
     \<lparr>callee = Func ''save_gifs_with_ground_truth'', args = [],
      kwargs =
        [(''predictions'', Ext (n + 32)),
         (''ground_truth'', Ext (n + 30)),
         (''channels'', PyList [PyStr ''pressure'', PyStr ''Reynolds'', PyStr ''u'', PyStr ''v'']),
         (''cmaps'', PyList [PyStr ''viridis'', PyStr ''plasma'', PyStr ''inferno'', PyStr ''magma'']),
         (''filename_prefix'', PyStr ''comparison_batch0''),
         (''interval'', PyFloat 2 (- 1)),
         (''batch_idx'', PyInt 0)]\<rparr>"

definition save_events :: "world \<Rightarrow> nat \<Rightarrow> event list" where
  "save_events w n =
     (case py_range w (Ext (n + 38)) of
        Inl e \<Rightarrow> []
      | Inr [] \<Rightarrow> []
      | Inr (i # _) \<Rightarrow> [save_event n])"

definition result_events :: "world \<Rightarrow> nat \<Rightarrow> event list" where
  "result_events w n =
     (case py_iter w (Ext (n + 21)) of
        Inl e \<Rightarrow> []
      | Inr seq_batches \<Rightarrow>
          (case py_iter w (Ext (n + 23)) of
             Inl e \<Rightarrow> []
           | Inr gt_batches \<Rightarrow>
               (case zip seq_batches gt_batches of
                  [] \<Rightarrow> []
                | (seq_batch, test_batch) # _ \<Rightarrow>
                    (case unpack4 w seq_batch of
                       Inl e \<Rightarrow> []
                     | Inr sq \<Rightarrow>
                         (case unpack4 w test_batch of
                            Inl e \<Rightarrow> []
                          | Inr gq \<Rightarrow> predict_events w n sq gq @ save_events w n)))))"

definition prepared_events :: "world \<Rightarrow> nat \<Rightarrow> event list" where
  "prepared_events w n =
     build_events n @ train_event n # load_events w n @ seq_loader_events n @
     gt_loader_events n @ [eval_event n]"

definition main_events :: "world \<Rightarrow> nat \<Rightarrow> event list" where
  "main_events w n = prepared_events w n @ result_events w n"

definition run_events :: "world \<Rightarrow> event list" where
  "run_events w =
     setup_events @
     (case py_iter w (Ext 2) of
        Inl e \<Rightarrow> []
      | Inr [] \<Rightarrow> main_events w 3
      | Inr (batch # _) \<Rightarrow>
          (case unpack4 w batch of
             Inl e \<Rightarrow> []
           | Inr q \<Rightarrow> visualize_event q # main_events w 4))"

section \<open>Reading the trace\<close>

text \<open>
  \<open>returned_by tr v\<close> is the call of the trace that returned \<open>v\<close>; \<open>made_by tr f v\<close> says
  that \<open>v\<close> is what a call \<^verbatim>\<open>f(...)\<close> returned, and \<open>on_gpu tr f v\<close> that \<open>v\<close> is
  \<^verbatim>\<open>f(...).cuda()\<close>. \<open>calls_of f tr\<close> lists the calls of \<open>f\<close> in order.
\<close>

definition returned_by :: "event list \<Rightarrow> val \<Rightarrow> event option" where
  "returned_by tr v =
     (case v of Ext i \<Rightarrow> (if i < length tr then Some (tr ! i) else None) | _ \<Rightarrow> None)"

definition made_by :: "event list \<Rightarrow> string \<Rightarrow> val \<Rightarrow> bool" where
  "made_by tr f v = (case returned_by tr v of Some e \<Rightarrow> callee e = Func f | None \<Rightarrow> False)"

definition on_gpu :: "event list \<Rightarrow> string \<Rightarrow> val \<Rightarrow> bool" where
  "on_gpu tr f v =
     (case returned_by tr v of
        Some e \<Rightarrow>
          (case callee e of
             Method r m \<Rightarrow> m = ''cuda'' \<and> args e = [] \<and> kwargs e = [] \<and> made_by tr f r
           | _ \<Rightarrow> False)
      | None \<Rightarrow> False)"

definition calls_of :: "string \<Rightarrow> event list \<Rightarrow> event list" where
  "calls_of f tr = filter (\<lambda>e. callee e = Func f) tr"

text \<open>
  Two worlds to run the notebook in. In \<open>quiet_world\<close> every loader is empty, so no
  batch is ever drawn. In \<open>demo_world\<close> each of the three loaders (the calls number 2,
  25 and 27 of that run) yields one batch of four tensors, CUDA is available and the
  batch holds eight samples.
\<close>

definition quiet_world :: world where
  "quiet_world =
     \<lparr>ext_truth = (\<lambda>i. False), ext_items = (\<lambda>i. Some []), ext_index = (\<lambda>i. None)\<rparr>"

definition demo_world :: world where
  "demo_world =
     \<lparr>ext_truth = (\<lambda>i. True),
      ext_items = (\<lambda>i.
        if i = 2 then Some [PyTuple [Ext 100, Ext 101, Ext 102, Ext 103]]
        else if i = 25 then Some [PyTuple [Ext 200, Ext 201, Ext 202, PyNone]]
        else if i = 27 then Some [PyTuple [Ext 300, Ext 301, Ext 302, Ext 303]]
        else None),
      ext_index = (\<lambda>i. Some 8)\<rparr>"

subsection \<open>The training call\<close>

definition train_call_as_claimed :: "event \<Rightarrow> bool" where
  "train_call_as_claimed e =
     (length (args e) = 4 \<and> map fst (kwargs e) = [''num_epochs'', ''save_dir''])"

definition train_call :: "event list \<Rightarrow> event \<Rightarrow> bool" where
  "train_call tr e =
     ((case args e of
         [m, l, c, opt] \<Rightarrow>
           on_gpu tr ''PARCv2'' m \<and> made_by tr ''DataLoader'' l \<and>
           on_gpu tr ''torch.nn.L1Loss'' c \<and> made_by tr ''Adam'' opt
       | _ \<Rightarrow> False) \<and>
      kwargs e =
        [(''num_epochs'', PyInt 1),
         (''save_dir'', PyPath [''..'', ''data'', ''navier_stokes'']),
         (''app'', PyStr ''ns'')])"

subsection \<open>The files of the demonstration\<close>

text \<open>
  The three paths of the demonstration: the training directory, the test directory and
  the statistics file, all under the data root \<^verbatim>\<open>../data/navier_stokes\<close>. They are
  written out here, independently of the cells that compute them.
\<close>

definition train_path :: path where
  "train_path = [''..'', ''data'', ''navier_stokes'', ''train'']"

definition test_path :: path where
  "test_path = [''..'', ''data'', ''navier_stokes'', ''test'']"

definition stats_path :: path where
  "stats_path = [''..'', ''data'', ''navier_stokes'', ''ns_min_max.json'']"

definition stats_file :: val where
  "stats_file = PyPath stats_path"

definition split_dirs :: "val list" where
  "split_dirs = [PyPath train_path, PyPath test_path]"

subsection \<open>The dataset constructors\<close>

text \<open>
  \<open>dataset_call e\<close> says what a constructor call is given: no positional argument and
  exactly three keywords, in order \<^verbatim>\<open>data_dirs\<close>, a non-empty list of data directories
  (each the training or the test directory), \<^verbatim>\<open>future_steps\<close>, a positive number of
  steps, and \<^verbatim>\<open>min_max_path\<close>, the path of the statistics file. \<open>notebook_dataset c d h\<close>
  is the call \<^verbatim>\<open>c(data_dirs=[d], future_steps=h, min_max_path=min_max_file)\<close>.
\<close>

definition is_dataset_call :: "event \<Rightarrow> bool" where
  "is_dataset_call e =
     (callee e = Func ''GenericPhysicsDataset'' \<or> callee e = Func ''InitialConditionDataset'')"

fun is_split_list :: "val \<Rightarrow> bool" where
  "is_split_list (PyList xs) =
     (xs \<noteq> [] \<and> list_all (\<lambda>d. d = PyPath train_path \<or> d = PyPath test_path) xs)"
| "is_split_list v = False"

fun is_step_count :: "val \<Rightarrow> bool" where
  "is_step_count (PyInt n) = (0 < n)"
| "is_step_count v = False"

definition dataset_call :: "event \<Rightarrow> bool" where
  "dataset_call e =
     (args e = [] \<and>
      map fst (kwargs e) = [''data_dirs'', ''future_steps'', ''min_max_path''] \<and>
      (case map snd (kwargs e) of
         [dirs, steps, stats] \<Rightarrow>
           is_split_list dirs \<and> is_step_count steps \<and> stats = PyPath stats_path
       | _ \<Rightarrow> False))"

definition notebook_dataset :: "string \<Rightarrow> path \<Rightarrow> int \<Rightarrow> event" where
  "notebook_dataset constructor dir steps =
     \<lparr>callee = Func constructor, args = [],
      kwargs =
        [(''data_dirs'', PyList [PyPath dir]),
         (''future_steps'', PyInt steps),
         (''min_max_path'', PyPath stats_path)]\<rparr>"

definition dataset_calls :: "event list \<Rightarrow> event list" where
  "dataset_calls tr = filter is_dataset_call tr"

subsection \<open>The model\<close>












text \<open>\<open>plain e\<close>: the call \<open>e\<close> is not a call of an object.\<close>

definition plain :: "event \<Rightarrow> bool" where
  "plain e = (case callee e of Apply m \<Rightarrow> False | _ \<Rightarrow> True)"


subsection \<open>The normalization statistics file\<close>

text \<open>
  \<open>normalization_call e\<close>: the call \<open>e\<close> is
  \<^verbatim>\<open>compute_min_max([train_dir, test_dir], min_max_file)\<close>. \<open>reads_shared_stats e\<close>: if \<open>e\<close>
  calls a dataset constructor, its \<^verbatim>\<open>min_max_path\<close> is that file and its \<^verbatim>\<open>data_dirs\<close> a
  non-empty list of those directories. \<open>shared_normalization tr\<close>: the trace starts
  with the normalization call, never computes statistics again, and every later call
  reads the shared statistics.
\<close>

definition normalization_call :: "event \<Rightarrow> bool" where
  "normalization_call e =
     (callee e = Func ''compute_min_max'' \<and> args e = [PyList split_dirs, stats_file] \<and>
      kwargs e = [])"

definition reads_shared_stats :: "event \<Rightarrow> bool" where
  "reads_shared_stats e =
     (is_dataset_call e \<longrightarrow>
        map_of (kwargs e) ''min_max_path'' = Some stats_file \<and>
        (case map_of (kwargs e) ''data_dirs'' of
           Some (PyList dirs) \<Rightarrow> dirs \<noteq> [] \<and> set dirs \<subseteq> set split_dirs
         | _ \<Rightarrow> False))"

definition shared_normalization :: "event list \<Rightarrow> bool" where
  "shared_normalization tr =
     (case tr of
        [] \<Rightarrow> False
      | e # rest \<Rightarrow>
          normalization_call e \<and> calls_of ''compute_min_max'' rest = [] \<and>
          list_all reads_shared_stats rest)"

subsection \<open>What the world handed to the loops\<close>

text \<open>
  \<open>first_unpacked w l q\<close>: iterating \<open>l\<close> yields a first item, and unpacking that item
  into four gives \<open>q\<close>. \<open>first_shown w n vis\<close> describes the outcome of the cell that
  visualizes the first training batch: either no batch was drawn, nothing was logged
  and the next call is number 3, or the first batch of the training loader (call
  number 2) was unpacked and shown, and the next call is number 4.
\<close>

definition first_unpacked :: "world \<Rightarrow> val \<Rightarrow> val \<times> val \<times> val \<times> val \<Rightarrow> bool" where
  "first_unpacked w l q =
     (case py_iter w l of Inr (b # bs) \<Rightarrow> unpack4 w b = Inr q | _ \<Rightarrow> False)"

definition first_shown :: "world \<Rightarrow> nat \<Rightarrow> event list \<Rightarrow> bool" where
  "first_shown w n vis =
     (n = 3 \<and> vis = [] \<or>
      n = 4 \<and> (\<exists>x y z u. first_unpacked w (Ext 2) (x, y, z, u) \<and>
                 vis = [visualize_event (x, y, z, u)]))"

section \<open>The library behind the calls\<close>

text \<open>
  The notebook calls \<^verbatim>\<open>compute_min_max\<close> and the two dataset classes; their code is
  in the PARCtorch package (\<^verbatim>\<open>PARCtorch.data.normalization\<close>, \<^verbatim>\<open>PARCtorch.data.dataset\<close>),
  of which the source at hand holds only this notebook. What they do with the files
  they are given is modelled here from the words of the specification, and the calls
  logged by a run of the notebook are then replayed against that model.
\<close>

text \<open>
  Modelled from the spec: the contents of the data root. Missing is the layout of a
  data directory and of the statistics file. The spec speaks of "data directories" of
  tensors with "physical field channels" and of "a JSON file of per-channel
  statistics" that "contains min/max per channel". A data directory is modelled as
  the list of its readings, each a channel number with the quantity read in that
  channel, and a statistics file as a table that gives a channel its minimum and
  its maximum.
\<close>

type_synonym 'a reading = "nat \<times> 'a"

type_synonym 'a table = "nat \<Rightarrow> ('a \<times> 'a) option"

datatype 'a content = DataDir "'a reading list" | StatsJson "'a table"

type_synonym 'a disk = "path \<Rightarrow> 'a content option"

datatype io_error = Missing path | BadArguments

text \<open>
  Modelled from the spec: one step of the statistics computation. Missing is the code
  of \<^verbatim>\<open>compute_min_max\<close>. \<open>widen t r\<close> takes one more reading into the table: the first
  reading of a channel is both its minimum and its maximum, a later one lowers the
  minimum or raises the maximum.
\<close>

definition widen :: "'a::linorder table \<Rightarrow> 'a reading \<Rightarrow> 'a table" where
  "widen t r =
     (case r of (c, v) \<Rightarrow>
        t(c \<mapsto> (case t c of None \<Rightarrow> (v, v) | Some (lo, hi) \<Rightarrow> (min lo v, max hi v))))"

text \<open>
  Modelled from the spec: reading "a list of data directories". Missing is the code of
  \<^verbatim>\<open>compute_min_max\<close>. The readings of the directories are taken in the order of the
  list; a path that is no data directory is an error.
\<close>

fun readings_in :: "'a disk \<Rightarrow> path list \<Rightarrow> io_error + 'a reading list" where
  "readings_in disk [] = Inr []"
| "readings_in disk (d # ds) =
     (case disk d of
        Some (DataDir rs) \<Rightarrow>
          (case readings_in disk ds of Inl e \<Rightarrow> Inl e | Inr rest \<Rightarrow> Inr (rs @ rest))
      | _ \<Rightarrow> Inl (Missing d))"

text \<open>
  Modelled from the spec: \<^verbatim>\<open>compute_min_max(data_dirs, output_file)\<close>, "a min-max
  normalization computation taking a list of data directories and producing a JSON
  file of per-channel statistics"; the notebook adds that it calculates the "minimum
  and maximum values across all provided datasets". Missing is the code of
  \<^verbatim>\<open>PARCtorch.data.normalization.compute_min_max\<close>. It passes once over all readings of
  all directories, keeping a running minimum and maximum for each channel, and writes
  the table to the output path.
\<close>

definition compute_min_max :: "path list \<Rightarrow> path \<Rightarrow> 'a::linorder disk \<Rightarrow> io_error + 'a disk" where
  "compute_min_max data_dirs output_file disk =
     (case readings_in disk data_dirs of
        Inl e \<Rightarrow> Inl e
      | Inr rs \<Rightarrow> Inr (disk(output_file \<mapsto> StatsJson (fold (\<lambda>r t. widen t r) rs Map.empty))))"

text \<open>
  What the table is meant to hold, stated without the loop: \<open>channel_values disk dirs c\<close>
  are the quantities read in channel \<open>c\<close> anywhere in the directories \<open>dirs\<close>, and
  \<open>extremes S\<close> the least and the greatest of a set of quantities, if it has any.
\<close>

fun is_data_dir :: "'a content option \<Rightarrow> bool" where
  "is_data_dir (Some (DataDir rs)) = True"
| "is_data_dir v = False"

definition channel_values :: "'a disk \<Rightarrow> path list \<Rightarrow> nat \<Rightarrow> 'a set" where
  "channel_values disk dirs c =
     {v. \<exists>d rs. d \<in> set dirs \<and> disk d = Some (DataDir rs) \<and> (c, v) \<in> set rs}"

definition extremes :: "'a::linorder set \<Rightarrow> ('a \<times> 'a) option" where
  "extremes S = (if S = {} then None else Some (Min S, Max S))"

definition values_of :: "nat \<Rightarrow> 'a reading list \<Rightarrow> 'a set" where
  "values_of c rs = {v. (c, v) \<in> set rs}"

text \<open>
  Modelled from the spec: the dataset classes, "dataset constructors taking data
  directories, a forecast horizon, and a normalization file path"; the notebook says
  of the file that it holds the "parameters to consistently scale data during
  training and prediction". Missing is the code of \<^verbatim>\<open>PARCtorch.data.dataset\<close>. A dataset
  is modelled by what it was built from: its directories, its horizon and the
  per-channel parameters it scales its tensors by, which the constructor reads from
  the statistics file. A missing directory or statistics file is an error. The two
  classes differ in the samples they yield, which is not modelled.
\<close>

record 'a dataset =
  source :: "path list"
  horizon :: int
  scale :: "'a table"

definition dataset_from :: "path list \<Rightarrow> int \<Rightarrow> path \<Rightarrow> 'a disk \<Rightarrow> io_error + 'a dataset" where
  "dataset_from data_dirs future_steps min_max_path disk =
     (case find (\<lambda>d. \<not> is_data_dir (disk d)) data_dirs of
        Some d \<Rightarrow> Inl (Missing d)
      | None \<Rightarrow>
          (case disk min_max_path of
             Some (StatsJson t) \<Rightarrow>
               Inr \<lparr>source = data_dirs, horizon = future_steps, scale = t\<rparr>
           | _ \<Rightarrow> Inl (Missing min_max_path)))"

text \<open>
  Modelled from the spec: the constructor \<^verbatim>\<open>GenericPhysicsDataset\<close>. Missing is the code
  of the class, in \<^verbatim>\<open>PARCtorch.data.dataset\<close>.
\<close>

definition GenericPhysicsDataset ::
  "path list \<Rightarrow> int \<Rightarrow> path \<Rightarrow> 'a disk \<Rightarrow> io_error + 'a dataset" where
  "GenericPhysicsDataset data_dirs future_steps min_max_path disk =
     dataset_from data_dirs future_steps min_max_path disk"

text \<open>
  Modelled from the spec: the constructor \<^verbatim>\<open>InitialConditionDataset\<close>. Missing is the
  code of the class, in \<^verbatim>\<open>PARCtorch.data.dataset\<close>.
\<close>

definition InitialConditionDataset ::
  "path list \<Rightarrow> int \<Rightarrow> path \<Rightarrow> 'a disk \<Rightarrow> io_error + 'a dataset" where
  "InitialConditionDataset data_dirs future_steps min_max_path disk =
     dataset_from data_dirs future_steps min_max_path disk"

subsection \<open>Replaying the calls of a run\<close>

text \<open>
  \<open>library_run tr disk\<close> replays the calls of the trace \<open>tr\<close>, in order, against the
  library above, starting from the files \<open>disk\<close>: a call of \<^verbatim>\<open>compute_min_max\<close> updates
  the files, a call of a dataset constructor adds the dataset it builds, a call of
  anything else leaves both alone, and the first error stops everything. The
  arguments are read from the call as the notebook passes them: \<^verbatim>\<open>compute_min_max\<close>
  by position, the constructors by keyword.
\<close>

fun as_path :: "val \<Rightarrow> path option" where
  "as_path (PyPath p) = Some p"
| "as_path v = None"

fun as_paths :: "val \<Rightarrow> path list option" where
  "as_paths (PyList xs) = those (map as_path xs)"
| "as_paths v = None"

fun as_int :: "val \<Rightarrow> int option" where
  "as_int (PyInt i) = Some i"
| "as_int v = None"

record 'a library =
  files :: "'a disk"
  built :: "'a dataset list"
  failure :: "io_error option"

definition fail :: "io_error \<Rightarrow> 'a library \<Rightarrow> 'a library" where
  "fail e s = s\<lparr>failure := Some e\<rparr>"

definition call_compute_min_max :: "event \<Rightarrow> 'a::linorder library \<Rightarrow> 'a library" where
  "call_compute_min_max e s =
     (case args e of
        [dirs, out] \<Rightarrow>
          (case (as_paths dirs, as_path out) of
             (Some ds, Some p) \<Rightarrow>
               (case compute_min_max ds p (files s) of
                  Inl err \<Rightarrow> fail err s
                | Inr disk \<Rightarrow> s\<lparr>files := disk\<rparr>)
           | _ \<Rightarrow> fail BadArguments s)
      | _ \<Rightarrow> fail BadArguments s)"

definition call_dataset ::
  "(path list \<Rightarrow> int \<Rightarrow> path \<Rightarrow> 'a disk \<Rightarrow> io_error + 'a dataset) \<Rightarrow>
   event \<Rightarrow> 'a library \<Rightarrow> 'a library" where
  "call_dataset constructor e s =
     (case (Option.bind (map_of (kwargs e) ''data_dirs'') as_paths,
            Option.bind (map_of (kwargs e) ''future_steps'') as_int,
            Option.bind (map_of (kwargs e) ''min_max_path'') as_path) of
        (Some ds, Some h, Some p) \<Rightarrow>
          (case constructor ds h p (files s) of
             Inl err \<Rightarrow> fail err s
           | Inr d \<Rightarrow> s\<lparr>built := built s @ [d]\<rparr>)
      | _ \<Rightarrow> fail BadArguments s)"

definition library_call :: "event \<Rightarrow> 'a::linorder library \<Rightarrow> 'a library" where
  "library_call e s =
     (if failure s \<noteq> None then s
      else if callee e = Func ''compute_min_max'' then call_compute_min_max e s
      else if callee e = Func ''GenericPhysicsDataset'' then call_dataset GenericPhysicsDataset e s
      else if callee e = Func ''InitialConditionDataset'' then call_dataset InitialConditionDataset e s
      else s)"

definition library_run :: "event list \<Rightarrow> 'a::linorder disk \<Rightarrow> 'a library" where
  "library_run tr disk = fold library_call tr \<lparr>files = disk, built = [], failure = None\<rparr>"

text \<open>
  \<open>shared_table disk\<close> gives each channel the least and the greatest quantity read in it
  anywhere in the training or the test directory of \<open>disk\<close>. \<open>scaled_alike disk s\<close>
  says of the outcome \<open>s\<close> of a replay that nothing failed, that the statistics file
  holds \<open>shared_table disk\<close>, and that every dataset built (there is at least one)
  scales by exactly that table and takes its data from the training or the test
  directory. \<open>idle e\<close> marks the calls the library does not react to.
\<close>

definition shared_table :: "'a::linorder disk \<Rightarrow> 'a table" where
  "shared_table disk = (\<lambda>c. extremes (channel_values disk [train_path, test_path] c))"

definition scaled_alike :: "'a::linorder disk \<Rightarrow> 'a library \<Rightarrow> bool" where
  "scaled_alike disk s =
     (failure s = None \<and>
      files s stats_path = Some (StatsJson (shared_table disk)) \<and>
      built s \<noteq> [] \<and>
      list_all (\<lambda>d. scale d = shared_table disk \<and> set (source d) \<subseteq> {train_path, test_path})
        (built s))"

definition split_dataset :: "'a::linorder disk \<Rightarrow> path \<Rightarrow> int \<Rightarrow> 'a dataset" where
  "split_dataset disk dir h = \<lparr>source = [dir], horizon = h, scale = shared_table disk\<rparr>"

definition idle :: "event \<Rightarrow> bool" where
  "idle e =
     (callee e \<noteq> Func ''compute_min_max'' \<and> callee e \<noteq> Func ''GenericPhysicsDataset'' \<and>
      callee e \<noteq> Func ''InitialConditionDataset'')"

text \<open>
  A small data root to replay the demonstration run on: the training directory holds
  two readings of channel 0 and one of channel 1, the test directory one of each.
\<close>

definition demo_disk :: "int disk" where
  "demo_disk p =
     (if p = train_path then Some (DataDir [(0, 3), (1, - 2), (0, 5)])
      else if p = test_path then Some (DataDir [(0, 1), (1, 7)])
      else None)"

section \<open>Running the cells logs the closed form\<close>

lemma run_call [simp]:
  "run_state (call f as kw) k =
     (Ext (length (trace k)), k\<lparr>trace := trace k @ [\<lparr>callee = f, args = as, kwargs = kw\<rparr>]\<rparr>)"
  by (simp add: call_def)

lemma run_raise [simp]: "run_state (raise e) k = ((), k\<lparr>raised := Some e\<rparr>)"
  by (simp add: raise_def)

lemma run_proceed [simp]:
  "run_state (proceed m) k = (if raised k = None then run_state m k else ((), k))"
  by (simp add: proceed_def)

lemma Path_train [simp]: "Path ''../data/navier_stokes/train'' = data_root @ [''train'']"
  by (simp add: Path_def data_root_def)

lemma Path_test [simp]: "Path ''../data/navier_stokes/test'' = data_root @ [''test'']"
  by (simp add: Path_def data_root_def)

lemma parent_data_root [simp]: "parent (data_root @ [s]) = data_root"
  by (simp add: parent_def data_root_def)

lemma joinpath_min_max [simp]:
  "joinpath data_root ''ns_min_max.json'' = data_root @ [''ns_min_max.json'']"
  by (simp add: joinpath_def Path_def)

lemma joinpath_model [simp]: "joinpath data_root ''model.pth'' = data_root @ [''model.pth'']"
  by (simp add: joinpath_def Path_def)

lemma length_build_events [simp]: "length (build_events n) = 16"
  by (simp add: build_events_def)

lemma length_load_events [simp]: "length (load_events w n) = 3"
  by (simp add: load_events_def)

lemma length_seq_loader_events [simp]: "length (seq_loader_events n) = 2"
  by (simp add: seq_loader_events_def)

lemma length_gt_loader_events [simp]: "length (gt_loader_events n) = 2"
  by (simp add: gt_loader_events_def)

lemma run_cell_normalization:
  "run_state cell_normalization fresh =
     ((data_root @ [''train''], data_root @ [''test''], data_root @ [''ns_min_max.json'']),
      \<lparr>trace = [hd setup_events], raised = None\<rparr>)"
  by (simp add: cell_normalization_def setup_events_def fresh_def Let_def)

lemma run_cell_train_loader:
  "run_state (cell_train_loader (data_root @ [''train'']) (data_root @ [''ns_min_max.json'']))
     \<lparr>trace = [hd setup_events], raised = None\<rparr> =
   ((PyInt 8, Ext 2), \<lparr>trace = setup_events, raised = None\<rparr>)"
  by (simp add: cell_train_loader_def setup_events_def Let_def dataset_options_def loader_options_def)

lemma run_cell_visualize_data:
  "run_state (cell_visualize_data w l) k =
     ((), case py_iter w l of
            Inl e \<Rightarrow> k\<lparr>raised := Some e\<rparr>
          | Inr [] \<Rightarrow> k
          | Inr (b # bs) \<Rightarrow>
              (case unpack4 w b of
                 Inl e \<Rightarrow> k\<lparr>raised := Some e\<rparr>
               | Inr q \<Rightarrow> k\<lparr>trace := trace k @ [visualize_event q]\<rparr>))"
  by (simp add: cell_visualize_data_def visualize_event_def Let_def
      split: sum.splits list.splits prod.splits)

lemma run_cell_build_model:
  "length (trace k) = n \<Longrightarrow>
   run_state cell_build_model k =
     ((Ext (n + 11), Ext (n + 13), Ext (n + 15)), k\<lparr>trace := trace k @ build_events n\<rparr>)"
  by (simp add: cell_build_model_def build_events_def Let_def)

lemma run_cell_train:
  "\<lbrakk>length (trace k) = n + 16; d = data_root @ [''train'']; m = Ext (n + 13); l = Ext 2;
    c = Ext (n + 11); opt = Ext (n + 15)\<rbrakk> \<Longrightarrow>
   run_state (cell_train d m l c opt) k = (Ext (n + 16), k\<lparr>trace := trace k @ [train_event n]\<rparr>)"
  by (simp add: cell_train_def train_event_def)

lemma run_cell_load:
  "\<lbrakk>length (trace k) = n + 17; d = data_root @ [''train'']; m = Ext (n + 13)\<rbrakk> \<Longrightarrow>
   run_state (cell_load w d m) k = (Ext (n + 19), k\<lparr>trace := trace k @ load_events w n\<rparr>)"
  by (simp add: cell_load_def load_events_def device_name_def Let_def)

lemma run_cell_seq_loader:
  "\<lbrakk>length (trace k) = n + 20; d = data_root @ [''test'']; f = data_root @ [''ns_min_max.json''];
    b = PyInt 8\<rbrakk> \<Longrightarrow>
   run_state (cell_seq_loader d f b) k =
     ((PyInt 10, Ext (n + 21)), k\<lparr>trace := trace k @ seq_loader_events n\<rparr>)"
  by (simp add: cell_seq_loader_def seq_loader_events_def Let_def dataset_options_def loader_options_def)

lemma run_cell_gt_loader:
  "\<lbrakk>length (trace k) = n + 22; d = data_root @ [''test'']; f = data_root @ [''ns_min_max.json''];
    b = PyInt 8; h = PyInt 10\<rbrakk> \<Longrightarrow>
   run_state (cell_gt_loader d h f b) k =
     (Ext (n + 23), k\<lparr>trace := trace k @ gt_loader_events n\<rparr>)"
  by (simp add: cell_gt_loader_def gt_loader_events_def Let_def dataset_options_def loader_options_def)

lemma py_range_first: "py_range w v = Inr (i # rest) \<Longrightarrow> i = 0"
  by (cases v) (auto split: option.splits if_splits simp: upt_eq_Cons_conv)

lemma run_save_first_gif:
  assumes "s = Ext (n + 38)" "p = Ext (n + 32)" "g = Ext (n + 30)"
    "ch = PyList [PyStr ''pressure'', PyStr ''Reynolds'', PyStr ''u'', PyStr ''v'']"
    "cm = PyList [PyStr ''viridis'', PyStr ''plasma'', PyStr ''inferno'', PyStr ''magma'']"
  shows "trace (snd (run_state (save_first_gif w s p g ch cm) k)) = trace k @ save_events w n"
proof (cases "py_range w (Ext (n + 38))")
  case (Inl e)
  with assms show ?thesis by (simp add: save_first_gif_def save_events_def)
next
  case (Inr xs)
  show ?thesis
  proof (cases xs)
    case Nil
    with Inr assms show ?thesis by (simp add: save_first_gif_def save_events_def)
  next
    case (Cons i rest)
    with Inr have "i = 0" using py_range_first by blast
    with Inr Cons assms show ?thesis
      by (simp add: save_first_gif_def save_events_def save_event_def str_int_def)
  qed
qed

lemma run_predict_first:
  assumes "length (trace k) = n + 25" "m = Ext (n + 19)"
    "ch = PyList [PyStr ''pressure'', PyStr ''Reynolds'', PyStr ''u'', PyStr ''v'']"
    "cm = PyList [PyStr ''viridis'', PyStr ''plasma'', PyStr ''inferno'', PyStr ''magma'']"
  shows "trace (snd (run_state (predict_first w m ch cm sb tb) k)) =
   trace k @
     (case unpack4 w sb of
        Inl e \<Rightarrow> []
      | Inr sq \<Rightarrow>
          (case unpack4 w tb of
             Inl e \<Rightarrow> []
           | Inr gq \<Rightarrow> predict_events w n sq gq @ save_events w n))"
  using assms
  by (simp add: predict_first_def predict_events_def device_name_def run_save_first_gif[where n=n]
      split: sum.splits prod.splits)

lemma run_cell_results:
  assumes "length (trace k) = n + 24" "m = Ext (n + 19)" "sl = Ext (n + 21)" "gl = Ext (n + 23)"
  shows "trace (snd (run_state (cell_results w m sl gl) k)) =
   trace k @ eval_event n # result_events w n"
  using assms
  by (simp add: cell_results_def result_events_def eval_event_def Let_def run_predict_first[where n=n]
      split: sum.splits list.splits prod.splits)

lemma run_after_visualize:
  assumes "length (trace k) = n"
  shows "trace (snd (run_state (after_visualize w (data_root @ [''train'']) (data_root @ [''test''])
            (data_root @ [''ns_min_max.json'']) (PyInt 8) (Ext 2)) k)) =
         trace k @ main_events w n"
  using assms
  by (simp add: after_visualize_def main_events_def prepared_events_def run_cell_build_model[where n=n]
      run_cell_train[where n=n] run_cell_load[where n=n] run_cell_seq_loader[where n=n]
      run_cell_gt_loader[where n=n] run_cell_results[where n=n])

lemma trace_run: "trace (run w) = run_events w"
proof -
  have start: "run_state (do {
       (train_dir, test_dir, min_max_file) \<leftarrow> cell_normalization;
       (batch_size, train_loader) \<leftarrow> cell_train_loader train_dir min_max_file;
       _ \<leftarrow> cell_visualize_data w train_loader;
       proceed (after_visualize w train_dir test_dir min_max_file batch_size train_loader)
     }) fresh =
     run_state (do {
       _ \<leftarrow> cell_visualize_data w (Ext 2);
       proceed (after_visualize w (data_root @ [''train'']) (data_root @ [''test''])
            (data_root @ [''ns_min_max.json'']) (PyInt 8) (Ext 2))
     }) \<lparr>trace = setup_events, raised = None\<rparr>"
    by (simp add: run_cell_normalization run_cell_train_loader)
  have len: "length setup_events = 3"
    by (simp add: setup_events_def)
  show ?thesis
    unfolding run_def notebook_def start
    by (simp add: run_cell_visualize_data run_events_def len
        run_after_visualize[where n=3] run_after_visualize[where n=4]
        split: sum.splits list.splits)
qed

lemma calls_of_append [simp]: "calls_of f (xs @ ys) = calls_of f xs @ calls_of f ys"
  by (simp add: calls_of_def)

lemma calls_of_Cons:
  "calls_of f (e # es) = (if callee e = Func f then e # calls_of f es else calls_of f es)"
  by (simp add: calls_of_def)

lemma calls_of_Nil [simp]: "calls_of f [] = []"
  by (simp add: calls_of_def)

lemmas segments = setup_events_def build_events_def train_event_def load_events_def
  seq_loader_events_def gt_loader_events_def eval_event_def predict_events_def save_events_def
  save_event_def visualize_event_def

lemma train_calls_main:
  "calls_of ''train_model'' (main_events w n) = [train_event n]"
  by (simp add: main_events_def prepared_events_def result_events_def segments calls_of_Cons
      split: sum.splits list.splits prod.splits)

lemma run_events_disj:
  "run_events w = setup_events \<or> run_events w = setup_events @ main_events w 3 \<or>
   (\<exists>q. first_unpacked w (Ext 2) q \<and>
      run_events w = setup_events @ visualize_event q # main_events w 4)"
  by (auto simp add: run_events_def first_unpacked_def split: sum.split list.split option.split)

lemma run_events_shape:
  obtains (stopped) "run_events w = setup_events"
  | (silent) "run_events w = setup_events @ main_events w 3"
  | (shown) q where "first_unpacked w (Ext 2) q"
      "run_events w = setup_events @ visualize_event q # main_events w 4"
  using run_events_disj[of w] by blast

lemma zip_first:
  "zip xs ys = (x, y) # rest \<Longrightarrow> (\<exists>xs' ys'. xs = x # xs' \<and> ys = y # ys')"
  by (cases xs; cases ys) auto

lemma result_events_disj:
  "result_events w n = [] \<or>
   (\<exists>sq gq. first_unpacked w (Ext (n + 21)) sq \<and> first_unpacked w (Ext (n + 23)) gq \<and>
      result_events w n = predict_events w n sq gq @ save_events w n)"
  by (auto simp add: result_events_def first_unpacked_def
      split: sum.split list.split option.split dest!: zip_first)

lemma result_events_shape:
  obtains (none) "result_events w n = []"
  | (predicted) sq gq where "first_unpacked w (Ext (n + 21)) sq"
      "first_unpacked w (Ext (n + 23)) gq"
      "result_events w n = predict_events w n sq gq @ save_events w n"
  using result_events_disj[of w n] by blast

lemma save_events_disj: "save_events w n = [] \<or> save_events w n = [save_event n]"
  by (simp add: save_events_def split: sum.split list.split option.split)

lemma save_events_shape:
  obtains (none) "save_events w n = []" | (saved) "save_events w n = [save_event n]"
  using save_events_disj[of w n] by blast

lemma main_events_cases:
  obtains (ready) "main_events w n = prepared_events w n"
  | (predicted) a b c d a' b' c' d' where
      "first_unpacked w (Ext (n + 21)) (a, b, c, d)"
      "first_unpacked w (Ext (n + 23)) (a', b', c', d')"
      "main_events w n = prepared_events w n @ predict_events w n (a, b, c, d) (a', b', c', d')"
  | (saved) a b c d a' b' c' d' where
      "first_unpacked w (Ext (n + 21)) (a, b, c, d)"
      "first_unpacked w (Ext (n + 23)) (a', b', c', d')"
      "main_events w n =
         prepared_events w n @ predict_events w n (a, b, c, d) (a', b', c', d') @ [save_event n]"
proof (cases w n rule: result_events_shape)
  case none
  then show ?thesis using ready by (simp add: main_events_def)
next
  case result: (predicted sq gq)
  obtain a b c d where sq: "sq = (a, b, c, d)" by (cases sq) auto
  obtain a' b' c' d' where gq: "gq = (a', b', c', d')" by (cases gq) auto
  show ?thesis
  proof (cases w n rule: save_events_shape)
    case none
    with result sq gq show ?thesis
      using predicted[of a b c d a' b' c' d'] by (simp add: main_events_def)
  next
    case save: saved
    with result sq gq show ?thesis
      using saved[of a b c d a' b' c' d'] by (simp add: main_events_def)
  qed
qed

lemma run_events_cases:
  obtains (stopped) "run_events w = setup_events"
  | (ready) n vis where
      "first_shown w n vis"
      "run_events w = setup_events @ vis @ prepared_events w n"
  | (predicted) n vis a b c d a' b' c' d' where
      "first_shown w n vis"
      "first_unpacked w (Ext (n + 21)) (a, b, c, d)"
      "first_unpacked w (Ext (n + 23)) (a', b', c', d')"
      "run_events w =
         setup_events @ vis @ prepared_events w n @ predict_events w n (a, b, c, d) (a', b', c', d')"
  | (saved) n vis a b c d a' b' c' d' where
      "first_shown w n vis"
      "first_unpacked w (Ext (n + 21)) (a, b, c, d)"
      "first_unpacked w (Ext (n + 23)) (a', b', c', d')"
      "run_events w =
         setup_events @ vis @ prepared_events w n @ predict_events w n (a, b, c, d) (a', b', c', d') @
         [save_event n]"
proof -
  note outer = that
  consider "run_events w = setup_events"
    | n vis where "first_shown w n vis" "run_events w = setup_events @ vis @ main_events w n"
  proof (cases w rule: run_events_shape)
    case stopped
    then show ?thesis using that(1) by simp
  next
    case silent
    then show ?thesis using that(2)[of 3 "[]"] by (simp add: first_shown_def)
  next
    case (shown q)
    obtain x y z u where q: "q = (x, y, z, u)" by (cases q) auto
    from shown have "first_shown w 4 [visualize_event q]"
      unfolding first_shown_def q by blast
    with shown show ?thesis using that(2)[of 4 "[visualize_event q]"] by simp
  qed
  then show thesis
  proof cases
    case 1
    then show ?thesis by (rule outer(1))
  next
    case (2 n vis)
    show ?thesis
    proof (cases w n rule: main_events_cases)
      case ready
      with 2 show ?thesis using outer(2)[of n vis] by simp
    next
      case (predicted a b c d a' b' c' d')
      with 2 show ?thesis using outer(3)[of n vis a b c d a' b' c' d'] by simp
    next
      case (saved a b c d a' b' c' d')
      with 2 show ?thesis using outer(4)[of n vis a b c d a' b' c' d'] by simp
    qed
  qed
qed

lemma first_shown_cases:
  assumes "first_shown w n vis"
  obtains (silent) "n = 3" "vis = []"
  | (shown) x y z u where "n = 4" "vis = [visualize_event (x, y, z, u)]"
      "first_unpacked w (Ext 2) (x, y, z, u)"
  using assms unfolding first_shown_def by blast

lemma dataset_calls_append [simp]: "dataset_calls (xs @ ys) = dataset_calls xs @ dataset_calls ys"
  by (simp add: dataset_calls_def)

lemma dataset_calls_Cons:
  "dataset_calls (e # es) = (if is_dataset_call e then e # dataset_calls es else dataset_calls es)"
  by (simp add: dataset_calls_def)

lemma dataset_calls_Nil [simp]: "dataset_calls [] = []"
  by (simp add: dataset_calls_def)

lemma dataset_calls_setup:
  "dataset_calls setup_events =
     [\<lparr>callee = Func ''GenericPhysicsDataset'', args = [], kwargs = dataset_options ''train'' 1\<rparr>]"
  by (simp add: setup_events_def dataset_calls_Cons is_dataset_call_def)

lemma dataset_calls_visualize [simp]: "dataset_calls (visualize_event q # es) = dataset_calls es"
  by (simp add: visualize_event_def dataset_calls_Cons is_dataset_call_def split: prod.splits)

lemma dataset_calls_prepared:
  "dataset_calls (prepared_events w n) =
     [\<lparr>callee = Func ''InitialConditionDataset'', args = [], kwargs = dataset_options ''test'' 10\<rparr>,
      \<lparr>callee = Func ''GenericPhysicsDataset'', args = [], kwargs = dataset_options ''test'' 10\<rparr>]"
  by (simp add: prepared_events_def build_events_def train_event_def load_events_def
      seq_loader_events_def gt_loader_events_def eval_event_def dataset_calls_Cons is_dataset_call_def)

lemma dataset_calls_predict [simp]: "dataset_calls (predict_events w n sq gq) = []"
  by (simp add: predict_events_def dataset_calls_Cons is_dataset_call_def split: prod.splits)

lemma dataset_calls_save [simp]: "dataset_calls [save_event n] = []"
  by (simp add: save_event_def dataset_calls_Cons is_dataset_call_def)

lemma run_events_demo:
  "run_events demo_world =
     setup_events @ [visualize_event (Ext 100, Ext 101, Ext 102, Ext 103)] @ prepared_events demo_world 4 @
     predict_events demo_world 4 (Ext 200, Ext 201, Ext 202, PyNone) (Ext 300, Ext 301, Ext 302, Ext 303) @
     [save_event 4]"
  by (simp add: run_events_def main_events_def result_events_def save_events_def demo_world_def
      unpack4_def upt_conv_Cons)

lemmas closed_forms = setup_events_def visualize_event_def prepared_events_def build_events_def
  train_event_def load_events_def seq_loader_events_def gt_loader_events_def eval_event_def
  predict_events_def save_event_def dataset_options_def loader_options_def data_root_def

lemmas readers = calls_of_Cons returned_by_def made_by_def on_gpu_def nth_append

section \<open>The statistics the library computes\<close>

lemma finite_values_of [simp]: "finite (values_of c rs)"
proof -
  have "values_of c rs \<subseteq> snd ` set rs"
    by (force simp add: values_of_def)
  then show ?thesis by (rule finite_subset) simp
qed

lemma values_of_Nil [simp]: "values_of c [] = {}"
  by (simp add: values_of_def)

lemma values_of_Cons:
  "values_of c ((c', v) # rs) = (if c' = c then insert v (values_of c rs) else values_of c rs)"
  by (auto simp add: values_of_def)

lemma values_of_append [simp]: "values_of c (xs @ ys) = values_of c xs \<union> values_of c ys"
  by (auto simp add: values_of_def)

lemma Min_insert_min:
  "finite S \<Longrightarrow> Min (insert (min lo v) S) = Min (insert lo (insert (v::'a::linorder) S))"
  by (cases "S = {}") (simp_all add: min.assoc)

lemma Max_insert_max:
  "finite S \<Longrightarrow> Max (insert (max hi v) S) = Max (insert hi (insert (v::'a::linorder) S))"
  by (cases "S = {}") (simp_all add: max.assoc)

lemma fold_widen:
  "fold (\<lambda>r t. widen t r) rs t c =
     (case t c of
        None \<Rightarrow> extremes (values_of c rs)
      | Some (lo, hi) \<Rightarrow>
          Some (Min (insert lo (values_of c rs)), Max (insert hi (values_of c rs))))"
proof (induction rs arbitrary: t)
  case Nil
  then show ?case by (simp add: extremes_def split: option.splits)
next
  case (Cons r rs)
  obtain c' v where r: "r = (c', v)" by (cases r)
  have step: "fold (\<lambda>r t. widen t r) (r # rs) t c = fold (\<lambda>r t. widen t r) rs (widen t r) c"
    by simp
  show ?case
  proof (cases "c' = c")
    case False
    then have "widen t r c = t c"
      by (simp add: r widen_def)
    with False show ?thesis
      unfolding step Cons.IH by (simp add: r values_of_Cons split: option.splits)
  next
    case True
    show ?thesis
    proof (cases "t c")
      case None
      with True have "widen t r c = Some (v, v)"
        by (simp add: r widen_def)
      with True None show ?thesis
        unfolding step Cons.IH by (simp add: r values_of_Cons extremes_def)
    next
      case (Some p)
      obtain lo hi where p: "p = (lo, hi)" by (cases p)
      with True Some have "widen t r c = Some (min lo v, max hi v)"
        by (simp add: r widen_def)
      with True Some p show ?thesis
        unfolding step Cons.IH
        by (simp add: r values_of_Cons Min_insert_min Max_insert_max)
    qed
  qed
qed

lemma channel_values_Nil [simp]: "channel_values disk [] c = {}"
  by (simp add: channel_values_def)

lemma channel_values_Cons:
  assumes "disk d = Some (DataDir here)"
  shows "channel_values disk (d # ds) c = values_of c here \<union> channel_values disk ds c"
proof (intro set_eqI iffI)
  fix v
  assume "v \<in> channel_values disk (d # ds) c"
  then obtain d' rs where d': "d' = d \<or> d' \<in> set ds" "disk d' = Some (DataDir rs)" "(c, v) \<in> set rs"
    by (auto simp add: channel_values_def)
  show "v \<in> values_of c here \<union> channel_values disk ds c"
  proof (cases "d' = d")
    case True
    with d' assms show ?thesis by (simp add: values_of_def)
  next
    case False
    with d' have "v \<in> channel_values disk ds c"
      unfolding channel_values_def by blast
    then show ?thesis by simp
  qed
next
  fix v
  assume "v \<in> values_of c here \<union> channel_values disk ds c"
  then show "v \<in> channel_values disk (d # ds) c"
  proof
    assume "v \<in> values_of c here"
    with assms show ?thesis
      unfolding channel_values_def values_of_def by auto
  next
    assume "v \<in> channel_values disk ds c"
    then show ?thesis
      unfolding channel_values_def by auto
  qed
qed

lemma readings_in_ok:
  "list_all (\<lambda>d. is_data_dir (disk d)) dirs \<Longrightarrow>
   \<exists>rs. readings_in disk dirs = Inr rs \<and> (\<forall>c. values_of c rs = channel_values disk dirs c)"
proof (induction dirs)
  case Nil
  then show ?case by simp
next
  case (Cons d ds)
  then obtain rs where rs: "readings_in disk ds = Inr rs"
    and vals: "\<And>c. values_of c rs = channel_values disk ds c"
    by auto
  from Cons.prems obtain here where here: "disk d = Some (DataDir here)"
    by (cases "disk d" rule: is_data_dir.cases) auto
  have "values_of c (here @ rs) = channel_values disk (d # ds) c" for c
    using channel_values_Cons[of disk d here ds c] here by (simp add: vals)
  with rs here show ?case by simp
qed

lemma compute_min_max_table:
  assumes "list_all (\<lambda>d. is_data_dir (disk d)) dirs"
  shows "compute_min_max dirs out disk =
     Inr (disk(out \<mapsto> StatsJson (\<lambda>c. extremes (channel_values disk dirs c))))"
proof -
  from readings_in_ok[OF assms] obtain rs where rs: "readings_in disk dirs = Inr rs"
    and vals: "\<And>c. values_of c rs = channel_values disk dirs c" by blast
  have "fold (\<lambda>r t. widen t r) rs Map.empty c = extremes (channel_values disk dirs c)" for c
    unfolding fold_widen vals by simp
  then have table: "fold (\<lambda>r t. widen t r) rs Map.empty = (\<lambda>c. extremes (channel_values disk dirs c))"
    by (intro ext)
  show ?thesis
    using table by (simp add: compute_min_max_def rs)
qed

lemma library_call_other:
  "callee e \<noteq> Func ''compute_min_max'' \<Longrightarrow> callee e \<noteq> Func ''GenericPhysicsDataset'' \<Longrightarrow>
   callee e \<noteq> Func ''InitialConditionDataset'' \<Longrightarrow> library_call e s = s"
  by (simp add: library_call_def)

lemma fold_idle: "list_all idle es \<Longrightarrow> fold library_call es s = s"
  by (induction es arbitrary: s) (simp_all add: idle_def library_call_other)

lemma idle_visualize: "idle (visualize_event q)"
  by (simp add: idle_def visualize_event_def split: prod.splits)

lemma idle_build: "list_all idle (build_events n)"
  by (simp add: idle_def build_events_def)

lemma idle_load: "list_all idle (train_event n # load_events w n)"
  by (simp add: idle_def train_event_def load_events_def)

lemma idle_predict: "list_all idle (predict_events w n sq gq)"
  by (simp add: idle_def predict_events_def split: prod.splits)

lemma idle_eval: "idle (eval_event n)"
  by (simp add: idle_def eval_event_def)

lemma idle_save: "idle (save_event n)"
  by (simp add: idle_def save_event_def)

section \<open>Replaying a run against the library\<close>

lemma library_setup:
  assumes "is_data_dir (disk train_path)" "is_data_dir (disk test_path)"
  shows "fold library_call setup_events \<lparr>files = disk, built = [], failure = None\<rparr> =
     \<lparr>files = disk(stats_path \<mapsto> StatsJson (shared_table disk)),
      built = [split_dataset disk train_path 1], failure = None\<rparr>"
proof -
  have "compute_min_max [train_path, test_path] stats_path disk =
      Inr (disk(stats_path \<mapsto> StatsJson (shared_table disk)))"
    unfolding shared_table_def using assms by (intro compute_min_max_table) simp
  moreover have "train_path \<noteq> stats_path"
    by (simp add: train_path_def stats_path_def)
  ultimately show ?thesis
    using assms
    by (simp add: setup_events_def library_call_def call_compute_min_max_def call_dataset_def
        GenericPhysicsDataset_def dataset_from_def dataset_options_def data_root_def
        split_dataset_def train_path_def[symmetric] test_path_def[symmetric]
        stats_path_def[symmetric])
qed

lemma library_test_loaders:
  assumes "is_data_dir (disk test_path)" "test_path \<noteq> stats_path"
  shows "fold library_call (seq_loader_events n @ gt_loader_events n)
       \<lparr>files = disk(stats_path \<mapsto> StatsJson t), built = bs, failure = None\<rparr> =
     \<lparr>files = disk(stats_path \<mapsto> StatsJson t),
      built = bs @ [\<lparr>source = [test_path], horizon = 10, scale = t\<rparr>,
                    \<lparr>source = [test_path], horizon = 10, scale = t\<rparr>],
      failure = None\<rparr>"
  using assms
  by (simp add: seq_loader_events_def gt_loader_events_def library_call_def call_dataset_def
      GenericPhysicsDataset_def InitialConditionDataset_def dataset_from_def dataset_options_def
      data_root_def test_path_def[symmetric] stats_path_def[symmetric])

lemma library_prepared:
  assumes "is_data_dir (disk test_path)"
  shows "fold library_call (prepared_events w n)
       \<lparr>files = disk(stats_path \<mapsto> StatsJson t), built = bs, failure = None\<rparr> =
     \<lparr>files = disk(stats_path \<mapsto> StatsJson t),
      built = bs @ [\<lparr>source = [test_path], horizon = 10, scale = t\<rparr>,
                    \<lparr>source = [test_path], horizon = 10, scale = t\<rparr>],
      failure = None\<rparr>"
proof -
  have ne: "test_path \<noteq> stats_path"
    by (simp add: test_path_def stats_path_def)
  let ?s = "\<lparr>files = disk(stats_path \<mapsto> StatsJson t), built = bs, failure = None\<rparr>"
  have eval: "fold library_call [eval_event n] s = s" for s :: "'a library"
    by (rule fold_idle) (simp add: idle_eval)
  have "fold library_call (prepared_events w n) ?s =
      fold library_call [eval_event n]
        (fold library_call (seq_loader_events n @ gt_loader_events n)
          (fold library_call (train_event n # load_events w n)
            (fold library_call (build_events n) ?s)))"
    by (simp add: prepared_events_def)
  also have "\<dots> = fold library_call (seq_loader_events n @ gt_loader_events n) ?s"
    by (simp only: eval fold_idle[OF idle_build] fold_idle[OF idle_load])
  finally show ?thesis
    by (simp only: library_test_loaders[of disk, OF assms ne])
qed

lemma library_call_idle: "idle e \<Longrightarrow> library_call e s = s"
  by (simp add: idle_def library_call_other)

lemma fold_first_shown: "first_shown w n vis \<Longrightarrow> fold library_call vis s = s"
  by (erule first_shown_cases) (simp_all add: library_call_idle idle_visualize)

lemma library_run_cases:
  assumes "is_data_dir (disk train_path)" "is_data_dir (disk test_path)"
  shows "library_run (run_events w) disk =
       \<lparr>files = disk(stats_path \<mapsto> StatsJson (shared_table disk)),
        built = [split_dataset disk train_path 1], failure = None\<rparr> \<and>
       length (dataset_calls (run_events w)) = 1 \<or>
     library_run (run_events w) disk =
       \<lparr>files = disk(stats_path \<mapsto> StatsJson (shared_table disk)),
        built = [split_dataset disk train_path 1, split_dataset disk test_path 10,
                 split_dataset disk test_path 10],
        failure = None\<rparr> \<and>
       length (dataset_calls (run_events w)) = 3"
proof (cases w rule: run_events_cases)
  case stopped
  then show ?thesis
    by (simp add: library_run_def library_setup[OF assms] dataset_calls_setup)
next
  case (ready n vis)
  have "dataset_calls vis = []"
    using ready(1) by (rule first_shown_cases) simp_all
  then show ?thesis
    using ready
    by (simp add: library_run_def library_setup[OF assms] fold_first_shown
        library_prepared[of disk, OF assms(2)] split_dataset_def dataset_calls_setup dataset_calls_prepared)
next
  case (predicted n vis a b c d a' b' c' d')
  have "dataset_calls vis = []"
    using predicted(1) by (rule first_shown_cases) simp_all
  then show ?thesis
    using predicted
    by (simp add: library_run_def library_setup[OF assms] fold_first_shown
        library_prepared[of disk, OF assms(2)] split_dataset_def dataset_calls_setup dataset_calls_prepared
        fold_idle[OF idle_predict])
next
  case (saved n vis a b c d a' b' c' d')
  have "dataset_calls vis = []"
    using saved(1) by (rule first_shown_cases) simp_all
  then show ?thesis
    using saved
    by (simp add: library_run_def library_setup[OF assms] fold_first_shown
        library_prepared[of disk, OF assms(2)] split_dataset_def dataset_calls_setup dataset_calls_prepared
        fold_idle[OF idle_predict] library_call_idle idle_save)
qed

lemma scaled_alike_run:
  assumes "is_data_dir (disk train_path)" and "is_data_dir (disk test_path)"
  shows "scaled_alike disk (library_run (run_events w) disk) \<and>
         length (built (library_run (run_events w) disk)) = length (dataset_calls (run_events w))"
  using library_run_cases[OF assms, of w]
  by (auto simp add: scaled_alike_def split_dataset_def)

lemma shared_table_demo:
  "shared_table demo_disk 0 = Some (1, 5)" "shared_table demo_disk 1 = Some (- 2, 7)"
  "shared_table demo_disk 2 = None"
proof -
  have tr: "demo_disk train_path = Some (DataDir [(0, 3), (1, - 2), (0, 5)])"
    by (simp add: demo_disk_def)
  have te: "demo_disk test_path = Some (DataDir [(0, 1), (1, 7)])"
    by (simp add: demo_disk_def train_path_def test_path_def)
  have "channel_values demo_disk [train_path, test_path] c =
      values_of c [(0, 3), (1, - 2), (0, 5)] \<union> values_of c [(0, 1), (1, 7)]" for c
    by (simp add: channel_values_Cons[of demo_disk, OF tr] channel_values_Cons[of demo_disk, OF te])
  then show "shared_table demo_disk 0 = Some (1, 5)" "shared_table demo_disk 1 = Some (- 2, 7)"
    "shared_table demo_disk 2 = None"
    by (simp_all add: shared_table_def values_of_Cons extremes_def)
qed

section \<open>The object behind a handle\<close>

lemma length_prepared_events [simp]: "length (prepared_events w n) = 25"
  by (simp add: prepared_events_def)







lemma plain_save: "plain (save_event n)"
  by (simp add: plain_def save_event_def)










section \<open>What every run calls\<close>

lemma dataset_options_train:
  "\<lparr>callee = Func f, args = [], kwargs = dataset_options ''train'' h\<rparr> = notebook_dataset f train_path h"
  by (simp add: notebook_dataset_def dataset_options_def data_root_def train_path_def stats_path_def)

lemma dataset_options_test:
  "\<lparr>callee = Func f, args = [], kwargs = dataset_options ''test'' h\<rparr> = notebook_dataset f test_path h"
  by (simp add: notebook_dataset_def dataset_options_def data_root_def test_path_def stats_path_def)

lemma dataset_call_notebook:
  "0 < h \<Longrightarrow> dir = train_path \<or> dir = test_path \<Longrightarrow> dataset_call (notebook_dataset f dir h)"
  by (auto simp add: dataset_call_def notebook_dataset_def)

lemma dataset_calls_first_shown: "first_shown w n vis \<Longrightarrow> dataset_calls vis = []"
  by (erule first_shown_cases) simp_all

lemma dataset_calls_run:
  "dataset_calls (run_events w) = [notebook_dataset ''GenericPhysicsDataset'' train_path 1] \<or>
   dataset_calls (run_events w) =
     [notebook_dataset ''GenericPhysicsDataset'' train_path 1,
      notebook_dataset ''InitialConditionDataset'' test_path 10,
      notebook_dataset ''GenericPhysicsDataset'' test_path 10]"
proof (cases w rule: run_events_cases)
  case stopped
  then show ?thesis
    by (simp add: dataset_calls_setup dataset_options_train)
next
  case (ready n vis)
  then show ?thesis
    by (simp add: dataset_calls_setup dataset_calls_prepared dataset_calls_first_shown
        dataset_options_train dataset_options_test)
next
  case (predicted n vis a b c d a' b' c' d')
  then show ?thesis
    by (simp add: dataset_calls_setup dataset_calls_prepared dataset_calls_first_shown
        dataset_options_train dataset_options_test)
next
  case (saved n vis a b c d a' b' c' d')
  then show ?thesis
    by (simp add: dataset_calls_setup dataset_calls_prepared dataset_calls_first_shown
        dataset_options_train dataset_options_test)
qed


lemmas file_names = stats_file_def split_dirs_def train_path_def test_path_def stats_path_def

lemma shared_normalization_run: "shared_normalization (run_events w)"
proof (cases w rule: run_events_cases)
  case stopped
  then show ?thesis
    by (simp add: closed_forms readers shared_normalization_def normalization_call_def
        reads_shared_stats_def is_dataset_call_def file_names)
next
  case (ready n vis)
  then show ?thesis
    by (elim first_shown_cases)
       (simp_all add: closed_forms readers shared_normalization_def normalization_call_def
        reads_shared_stats_def is_dataset_call_def file_names)
next
  case (predicted n vis a b c d a' b' c' d')
  then show ?thesis
    by (elim first_shown_cases)
       (simp_all add: closed_forms readers shared_normalization_def normalization_call_def
        reads_shared_stats_def is_dataset_call_def file_names)
next
  case (saved n vis a b c d a' b' c' d')
  then show ?thesis
    by (elim first_shown_cases)
       (simp_all add: closed_forms readers shared_normalization_def normalization_call_def
        reads_shared_stats_def is_dataset_call_def file_names)
qed

lemma demo_disk_dirs: "is_data_dir (demo_disk train_path)" "is_data_dir (demo_disk test_path)"
  by (simp_all add: demo_disk_def train_path_def test_path_def)

lemma dataset_calls_demo:
  "dataset_calls (run_events demo_world) =
     [notebook_dataset ''GenericPhysicsDataset'' train_path 1,
      notebook_dataset ''InitialConditionDataset'' test_path 10,
      notebook_dataset ''GenericPhysicsDataset'' test_path 10]"
  by (simp add: run_events_demo dataset_calls_setup dataset_calls_prepared
      dataset_options_train dataset_options_test)

lemma library_run_demo:
  "library_run (run_events demo_world) demo_disk =
     \<lparr>files = demo_disk(stats_path \<mapsto> StatsJson (shared_table demo_disk)),
      built = [split_dataset demo_disk train_path 1, split_dataset demo_disk test_path 10,
               split_dataset demo_disk test_path 10],
      failure = None\<rparr>"
  using library_run_cases[OF demo_disk_dirs, of demo_world]
  by (simp add: dataset_calls_demo)


section \<open>The claims\<close>

text \<open>
  C3 (as stated): the training entry point \<^verbatim>\<open>train_model\<close> is invoked with exactly a
  model, a data loader, a loss criterion, an optimizer, an epoch count and an output
  directory. The notebook passes a seventh input, the keyword \<^verbatim>\<open>app="ns"\<close>: in the
  world where every loader is empty the one training call is not of the claimed form.
\<close>

theorem train_model_inputs_counterexample:
  "\<not> list_all train_call_as_claimed (calls_of ''train_model'' (trace (run quiet_world)))"
proof -
  have "run_events quiet_world = setup_events @ main_events quiet_world 3"
    by (simp add: run_events_def quiet_world_def)
  then have "calls_of ''train_model'' (trace (run quiet_world)) = [train_event 3]"
    by (simp add: trace_run train_calls_main setup_events_def calls_of_Cons)
  then show ?thesis
    by (simp add: train_call_as_claimed_def train_event_def)
qed

text \<open>
  C3 (amended): in every world, every call of \<^verbatim>\<open>train_model\<close> has four positional
  arguments, in order the model \<^verbatim>\<open>PARCv2(...).cuda()\<close>, a \<^verbatim>\<open>DataLoader\<close>, the criterion
  \<^verbatim>\<open>torch.nn.L1Loss().cuda()\<close> and the \<^verbatim>\<open>Adam\<close> optimizer, and exactly three keywords:
  \<^verbatim>\<open>num_epochs=1\<close>, \<^verbatim>\<open>save_dir\<close> set to the data root \<^verbatim>\<open>../data/navier_stokes\<close>, and
  \<^verbatim>\<open>app="ns"\<close>.
\<close>

theorem train_model_inputs:
  "list_all (train_call (trace (run w))) (calls_of ''train_model'' (trace (run w)))"
proof (cases w rule: run_events_shape)
  case stopped
  then show ?thesis by (simp add: trace_run setup_events_def calls_of_Cons)
next
  case silent
  show ?thesis
    unfolding trace_run silent
    apply (simp add: train_calls_main calls_of_Cons setup_events_def)
    apply (simp add: train_call_def train_event_def on_gpu_def made_by_def returned_by_def
        main_events_def prepared_events_def build_events_def setup_events_def load_events_def nth_append data_root_def)
    done
next
  case (shown q)
  show ?thesis
    unfolding trace_run shown(2)
    apply (simp add: train_calls_main calls_of_Cons setup_events_def visualize_event_def
        split: prod.splits)
    apply (simp add: train_call_def train_event_def on_gpu_def made_by_def returned_by_def
        main_events_def prepared_events_def build_events_def setup_events_def load_events_def nth_append data_root_def)
    done
qed

theorem train_model_inputs_witness:
  "calls_of ''train_model'' (trace (run demo_world)) = [train_event 4] \<and>
   list_all (train_call (trace (run demo_world)))
     (calls_of ''train_model'' (trace (run demo_world)))"
proof -
  have "run_events demo_world =
      setup_events @ visualize_event (Ext 100, Ext 101, Ext 102, Ext 103) # main_events demo_world 4"
    by (simp add: run_events_def demo_world_def unpack4_def)
  then have "calls_of ''train_model'' (trace (run demo_world)) = [train_event 4]"
    by (simp add: trace_run train_calls_main setup_events_def visualize_event_def calls_of_Cons)
  then show ?thesis
    using train_model_inputs [of demo_world] by simp
qed

text \<open>
  C4: in every world, every call of a dataset constructor (\<^verbatim>\<open>GenericPhysicsDataset\<close> or
  \<^verbatim>\<open>InitialConditionDataset\<close>) has no positional argument and exactly three keywords:
  \<^verbatim>\<open>data_dirs\<close>, a non-empty list of data directories (the training or the test
  directory of the demonstration), \<^verbatim>\<open>future_steps\<close>, a positive number of steps, and
  \<^verbatim>\<open>min_max_path\<close>, the path \<^verbatim>\<open>../data/navier_stokes/ns_min_max.json\<close> of the statistics
  file. Precisely, the constructor calls of a run are either the one call
  \<^verbatim>\<open>GenericPhysicsDataset(data_dirs=[train_dir], future_steps=1, min_max_path=min_max_file)\<close>,
  or that call followed by
  \<^verbatim>\<open>InitialConditionDataset(data_dirs=[test_dir], future_steps=10, min_max_path=min_max_file)\<close>
  and
  \<^verbatim>\<open>GenericPhysicsDataset(data_dirs=[test_dir], future_steps=10, min_max_path=min_max_file)\<close>.
  In the demonstration world all three calls happen.
\<close>

theorem dataset_constructor_inputs:
  "list_all dataset_call (dataset_calls (trace (run w))) \<and>
   (dataset_calls (trace (run w)) = [notebook_dataset ''GenericPhysicsDataset'' train_path 1] \<or>
    dataset_calls (trace (run w)) =
      [notebook_dataset ''GenericPhysicsDataset'' train_path 1,
       notebook_dataset ''InitialConditionDataset'' test_path 10,
       notebook_dataset ''GenericPhysicsDataset'' test_path 10])"
  using dataset_calls_run [of w]
  by (auto simp add: trace_run dataset_call_notebook)

theorem dataset_constructor_inputs_witness:
  "dataset_calls (trace (run demo_world)) =
     [notebook_dataset ''GenericPhysicsDataset'' train_path 1,
      notebook_dataset ''InitialConditionDataset'' test_path 10,
      notebook_dataset ''GenericPhysicsDataset'' test_path 10] \<and>
   list_all dataset_call (dataset_calls (trace (run demo_world)))"
  using dataset_constructor_inputs [of demo_world]
  by (simp add: trace_run dataset_calls_demo)



text \<open>
  C10: in every world the first call of the run is
  \<^verbatim>\<open>compute_min_max([train_dir, test_dir], min_max_file)\<close> with \<^verbatim>\<open>min_max_file\<close> the path
  \<^verbatim>\<open>../data/navier_stokes/ns_min_max.json\<close>; no later call computes statistics again;
  and every dataset constructor called afterwards is given that same file as
  \<^verbatim>\<open>min_max_path\<close> and takes its data from the training or the test directory. Replayed
  on any data root whose training and test directories exist, these calls succeed,
  the statistics file then gives every channel the minimum and the maximum of the
  quantities read in it over both directories together, each constructor call builds
  a dataset, and every dataset built scales by exactly that one table. On the small
  data root of the demonstration the table gives channel 0 the range 1 to 5 and
  channel 1 the range -2 to 7, each drawing on both directories, and the three
  datasets built all carry it.
\<close>

theorem one_statistics_file:
  assumes "is_data_dir (disk train_path)" and "is_data_dir (disk test_path)"
  shows "shared_normalization (trace (run w)) \<and>
         scaled_alike disk (library_run (trace (run w)) disk) \<and>
         length (built (library_run (trace (run w)) disk)) = length (dataset_calls (trace (run w)))"
  using scaled_alike_run [OF assms, of w]
  by (simp add: trace_run shared_normalization_run)

theorem one_statistics_file_witness:
  "is_data_dir (demo_disk train_path) \<and> is_data_dir (demo_disk test_path) \<and>
   shared_table demo_disk 0 = Some (1, 5) \<and> shared_table demo_disk 1 = Some (- 2, 7) \<and>
   map scale (built (library_run (trace (run demo_world)) demo_disk)) =
     [shared_table demo_disk, shared_table demo_disk, shared_table demo_disk] \<and>
   map source (built (library_run (trace (run demo_world)) demo_disk)) =
     [[train_path], [test_path], [test_path]] \<and>
   shared_normalization (trace (run demo_world)) \<and>
   scaled_alike demo_disk (library_run (trace (run demo_world)) demo_disk) \<and>
   length (built (library_run (trace (run demo_world)) demo_disk)) =
     length (dataset_calls (trace (run demo_world)))"
  using one_statistics_file [of demo_disk demo_world] shared_table_demo
  by (simp add: demo_disk_dirs trace_run library_run_demo split_dataset_def)

end
